theory Spec2Isabelle
  imports Main "HOL-Library.Sublist"
begin

section \<open>The service client of the request pipeline\<close>

text \<open>
  A shallow embedding of the class \<open>ServiceClient\<close> (serviceClient.ts): its constructor,
  \<open>addUserAgentInfo\<close>, \<open>pipeline\<close> and \<open>sendRequest\<close>. JavaScript arrays are objects
  that are shared by reference and mutated in place, so they live in an explicit store and
  the model passes references to them.
\<close>

subsection \<open>Errors and credentials\<close>

text \<open>\<open>new Error(message)\<close>: the only kind of error the class raises itself.\<close>

datatype error = Error string

text \<open>
  A credentials object. The constructor only tests whether the member \<open>signRequest\<close> is
  there; the method itself is identified by a number.
\<close>

record ServiceClientCredentials =
  signRequest :: "nat option"

subsection \<open>Policy creators and policies\<close>

type_synonym addr = nat

text \<open>
  Modelled from the spec: the type \<open>RequestPolicyCreator\<close> and the six filter factories the
  constructor imports (the files under \<open>./filters/\<close> are not part of the sources at hand).
  A creator is "a constructor taking the next policy in the chain and producing a policy";
  it is represented by the factory call that made it, with the argument of the call. The
  user-agent filter receives the array \<open>this.userAgentInfo.value\<close> itself, that is a
  reference, not a copy. \<open>customFilter n\<close> stands for any creator a caller wrote.
\<close>

datatype RequestPolicyCreator =
    signingFilter ServiceClientCredentials
  | msRestUserAgentFilter addr
  | redirectFilter
  | rpRegistrationFilter "int option"
  | exponentialRetryPolicyFilter
  | systemErrorRetryPolicyFilter
  | customFilter nat

text \<open>
  Modelled from the spec: a \<open>RequestPolicy\<close> is either the terminal transport sender or the
  policy that a creator produced when it was "invoked with the policy built from the
  remainder of the sequence as its inward delegate".
\<close>

datatype RequestPolicy =
    fetchRequestPolicy
  | Policy RequestPolicyCreator RequestPolicy

text \<open>
  Modelled from the spec: \<open>createRequestPipeline\<close> (requestPipeline.ts is not part of the
  sources at hand). "The factory supplied first becomes the outermost policy; each factory
  is invoked with the policy built from the remainder of the sequence as its inward
  delegate, so the terminal transport sender is always innermost."
\<close>

fun createRequestPipeline :: "RequestPolicyCreator list \<Rightarrow> RequestPolicy" where
  "createRequestPipeline [] = fetchRequestPolicy"
| "createRequestPipeline (requestPolicyCreator # remainder) =
     Policy requestPolicyCreator (createRequestPipeline remainder)"

subsection \<open>The store\<close>

text \<open>
  The arrays of strings and the arrays of policy creators that exist, by address, and the
  next address \<open>[]\<close> allocates at.
\<close>

record heap =
  nextAddr :: addr
  stringArrays :: "addr \<Rightarrow> string list"
  creatorArrays :: "addr \<Rightarrow> RequestPolicyCreator list"

definition newStringArray :: "heap \<Rightarrow> addr \<times> heap" where
  "newStringArray h =
     (nextAddr h,
      h\<lparr>nextAddr := Suc (nextAddr h), stringArrays := (stringArrays h)(nextAddr h := [])\<rparr>)"

definition newCreatorArray :: "heap \<Rightarrow> addr \<times> heap" where
  "newCreatorArray h =
     (nextAddr h,
      h\<lparr>nextAddr := Suc (nextAddr h), creatorArrays := (creatorArrays h)(nextAddr h := [])\<rparr>)"

text \<open>\<open>array.push(x)\<close> on an array of strings and on an array of creators.\<close>

definition pushString :: "addr \<Rightarrow> string \<Rightarrow> heap \<Rightarrow> heap" where
  "pushString a x h = h\<lparr>stringArrays := (stringArrays h)(a := stringArrays h a @ [x])\<rparr>"

definition push :: "addr \<Rightarrow> RequestPolicyCreator \<Rightarrow> heap \<Rightarrow> heap" where
  "push a x h = h\<lparr>creatorArrays := (creatorArrays h)(a := creatorArrays h a @ [x])\<rparr>"

text \<open>\<open>array.indexOf(x)\<close>: the first index holding \<open>x\<close>, or \<open>-1\<close>.\<close>

fun indexOf :: "'a list \<Rightarrow> 'a \<Rightarrow> int" where
  "indexOf [] x = - 1"
| "indexOf (y # ys) x =
     (if y = x then 0 else (let i = indexOf ys x in if i = - 1 then - 1 else i + 1))"

subsection \<open>Options and the client object\<close>

type_synonym RequestInit = "(string \<times> string) list"

record ServiceClientOptions =
  requestOptions :: "RequestInit option"
  requestPolicyCreators :: "addr option"
  noRetryPolicy :: "bool option"
  rpRegistrationRetryTimeout :: "int option"

text \<open>The object literal \<open>{}\<close> as options: every member undefined.\<close>

definition emptyOptions :: ServiceClientOptions where
  "emptyOptions =
     \<lparr>requestOptions = None, requestPolicyCreators = None, noRetryPolicy = None,
      rpRegistrationRetryTimeout = None\<rparr>"

text \<open>
  The client. \<open>userAgentInfo\<close> is the reference held in \<open>this.userAgentInfo.value\<close> (the
  wrapper object is assigned once and its member never reassigned). The first record is the
  object while the constructor runs, before \<open>httpRequestSender\<close> is assigned.
\<close>

record ServiceClient_userAgentInfo =
  userAgentInfo :: addr

record ServiceClient = ServiceClient_userAgentInfo +
  httpRequestSender :: RequestPolicy

subsection \<open>addUserAgentInfo\<close>

definition addUserAgentInfo ::
  "'a ServiceClient_userAgentInfo_scheme \<Rightarrow> string \<Rightarrow> heap \<Rightarrow> heap" where
  "addUserAgentInfo this additionalUserAgentInfo h =
     (if indexOf (stringArrays h (userAgentInfo this)) additionalUserAgentInfo = - 1
      then pushString (userAgentInfo this) additionalUserAgentInfo h
      else h)"

subsection \<open>The constructor\<close>

text \<open>
  \<open>msRestVersion\<close> is the constant \<open>Constants.msRestVersion\<close> (util/constants.ts is not part
  of the sources at hand). The result is what the constructor throws or the new client,
  together with the options object as the constructor leaves it (the caller's own object
  when one was passed) and the store. Reading the constant and calling \<open>addUserAgentInfo\<close>
  do not throw, so the attempt in the \<open>try\<close> block always succeeds; the \<open>catch\<close> branch is
  kept as the source has it.
\<close>

definition ServiceClient_constructor ::
  "string \<Rightarrow> ServiceClientCredentials option \<Rightarrow> ServiceClientOptions option \<Rightarrow> heap \<Rightarrow>
     (error + ServiceClient) \<times> ServiceClientOptions \<times> heap" where
  "ServiceClient_constructor msRestVersion credentials options0 h0 =
     (let options1 = (case options0 of None \<Rightarrow> emptyOptions | Some given \<Rightarrow> given);
          options2 = (if requestOptions options1 = None
                      then options1\<lparr>requestOptions := Some []\<rparr> else options1);
          (array, h1) = newStringArray h0;
          this = \<lparr>userAgentInfo = array\<rparr>
      in if (case credentials of None \<Rightarrow> False | Some c \<Rightarrow> signRequest c = None)
         then (Inl (Error ''credentials argument needs to implement signRequest method''),
               options2, h1)
         else
           let moduleName = ''ms-rest-js'';
               moduleVersion = msRestVersion;
               attempt = (Inr (addUserAgentInfo this (moduleName @ ''/'' @ moduleVersion) h1)
                            :: error + heap);
               h2 = (case attempt of Inr h \<Rightarrow> h | Inl err \<Rightarrow> h1);
               (creators, options3, h3) =
                 (case requestPolicyCreators options2 of
                    None \<Rightarrow>
                      (let (fresh, h) = newCreatorArray h2
                       in (fresh, options2\<lparr>requestPolicyCreators := Some fresh\<rparr>, h))
                  | Some given \<Rightarrow> (given, options2, h2));
               h4 = (case credentials of
                       None \<Rightarrow> h3
                     | Some c \<Rightarrow> push creators (signingFilter c) h3);
               h5 = push creators (msRestUserAgentFilter (userAgentInfo this)) h4;
               h6 = push creators redirectFilter h5;
               h7 = push creators (rpRegistrationFilter (rpRegistrationRetryTimeout options3)) h6;
               h8 = (if noRetryPolicy options3 \<noteq> Some True
                     then push creators systemErrorRetryPolicyFilter
                            (push creators exponentialRetryPolicyFilter h7)
                     else h7)
           in (Inr \<lparr>userAgentInfo = array,
                    httpRequestSender = createRequestPipeline (creatorArrays h8 creators)\<rparr>,
               options3, h8))"

subsection \<open>Sending a request\<close>

text \<open>
  A sender takes the request and the state of the world outside the client (the network,
  the clock) and gives the outcome, a response or the error the promise is rejected with,
  and the world after.
\<close>

type_synonym ('q, 'r, 'w) sender = "'q \<Rightarrow> 'w \<Rightarrow> (error + 'r) \<times> 'w"

text \<open>
  Modelled from the spec: what \<open>sendRequest\<close> of a policy does. The policies' own code is
  not part of the sources at hand, so the behaviour of the policy a creator makes, given
  its inward delegate, and the behaviour of the transport are parameters.
\<close>

record ('q, 'r, 'w) policyBehaviour =
  policySendRequest :: "RequestPolicyCreator \<Rightarrow> ('q, 'r, 'w) sender \<Rightarrow> ('q, 'r, 'w) sender"
  fetch :: "('q, 'r, 'w) sender"

fun RequestPolicy_sendRequest ::
  "('q, 'r, 'w) policyBehaviour \<Rightarrow> RequestPolicy \<Rightarrow> ('q, 'r, 'w) sender" where
  "RequestPolicy_sendRequest env fetchRequestPolicy = fetch env"
| "RequestPolicy_sendRequest env (Policy creator nextPolicy) =
     policySendRequest env creator (RequestPolicy_sendRequest env nextPolicy)"

definition pipeline ::
  "('q, 'r, 'w) policyBehaviour \<Rightarrow> ServiceClient \<Rightarrow> ('q, 'r, 'w) sender" where
  "pipeline env this request = RequestPolicy_sendRequest env (httpRequestSender this) request"

text \<open>
  The values \<open>sendRequest\<close> can be called with at run time: \<open>'q\<close> is the class
  \<open>WebResource\<close>, \<open>'o\<close> any other object (a \<open>RequestPrepareOptions\<close>). The payload of a
  number plays no part in the check.
\<close>

datatype ('o, 'q) JSObject = WebResource 'q | RequestPrepareOptions 'o

datatype ('o, 'q) JSValue =
    JSUndefined
  | JSNull
  | JSBoolean bool
  | JSNumber int
  | JSString string
  | JSFunction nat
  | JSObject "('o, 'q) JSObject"

fun typeof :: "('o, 'q) JSValue \<Rightarrow> string" where
  "typeof JSUndefined = ''undefined''"
| "typeof JSNull = ''object''"
| "typeof (JSBoolean b) = ''boolean''"
| "typeof (JSNumber n) = ''number''"
| "typeof (JSString s) = ''string''"
| "typeof (JSFunction f) = ''function''"
| "typeof (JSObject obj) = ''object''"

text \<open>
  The two methods of \<open>WebResource\<close> that \<open>sendRequest\<close> calls (webResource.ts is not part of
  the sources at hand): \<open>validateRequestProperties\<close> returns nothing or throws, \<open>prepare\<close>
  on a new \<open>WebResource\<close> returns the prepared request or throws.
\<close>

record ('o, 'q) WebResourceMethods =
  validateRequestProperties :: "'q \<Rightarrow> error option"
  prepare :: "'o \<Rightarrow> error + 'q"

text \<open>
  A \<open>throw\<close> in the \<open>async\<close> function and \<open>Promise.reject\<close> both give a rejected promise:
  \<open>Inl\<close>. The last branch of the inner \<open>case\<close> is never reached, the check before it
  having let only objects through.
\<close>

definition sendRequest ::
  "('o, 'q) WebResourceMethods \<Rightarrow> ('q, 'r, 'w) policyBehaviour \<Rightarrow> ServiceClient \<Rightarrow>
     ('o, 'q) JSValue \<Rightarrow> 'w \<Rightarrow> (error + 'r) \<times> 'w" where
  "sendRequest webResource env this options w =
     (if options = JSNull \<or> options = JSUndefined \<or> typeof options \<noteq> ''object''
      then (Inl (Error ''options cannot be null or undefined and it must be of type object.''), w)
      else
        (case (case options of
                 JSObject (WebResource given) \<Rightarrow>
                   (case validateRequestProperties webResource given of
                      Some error \<Rightarrow> Inl error
                    | None \<Rightarrow> Inr given)
               | JSObject (RequestPrepareOptions given) \<Rightarrow> prepare webResource given
               | _ \<Rightarrow> Inl (Error ''options cannot be null or undefined and it must be of type object.''))
         of
           Inl error \<Rightarrow> (Inl error, w)
         | Inr httpRequest \<Rightarrow>
             RequestPolicy_sendRequest env (httpRequestSender this) httpRequest w))"

subsection \<open>Observing a chain\<close>

text \<open>
  Modelled from the spec: a policy that "may mutate the request", then calls "the inward
  policy" and "post-processes its result". It changes the request by \<open>onRequest\<close> and the
  outcome by \<open>onResponse\<close>, and notes in the world, a log, when it sees the request and when
  it sees the response. The transport notes the request it is given.
\<close>

datatype 'q event =
    RequestSeen RequestPolicyCreator
  | Sent 'q
  | ResponseSeen RequestPolicyCreator

definition wrappingPolicy ::
  "(RequestPolicyCreator \<Rightarrow> 'q \<Rightarrow> 'q) \<Rightarrow>
   (RequestPolicyCreator \<Rightarrow> error + 'r \<Rightarrow> error + 'r) \<Rightarrow>
   RequestPolicyCreator \<Rightarrow> ('q, 'r, 'q event list) sender \<Rightarrow> ('q, 'r, 'q event list) sender" where
  "wrappingPolicy onRequest onResponse creator nextPolicy request log =
     (case nextPolicy (onRequest creator request) (log @ [RequestSeen creator]) of
        (outcome, log') \<Rightarrow> (onResponse creator outcome, log' @ [ResponseSeen creator]))"

definition recordingTransport :: "('q \<Rightarrow> error + 'r) \<Rightarrow> ('q, 'r, 'q event list) sender" where
  "recordingTransport respond request log = (respond request, log @ [Sent request])"

definition observed ::
  "(RequestPolicyCreator \<Rightarrow> 'q \<Rightarrow> 'q) \<Rightarrow>
   (RequestPolicyCreator \<Rightarrow> error + 'r \<Rightarrow> error + 'r) \<Rightarrow> ('q \<Rightarrow> error + 'r) \<Rightarrow>
   ('q, 'r, 'q event list) policyBehaviour" where
  "observed onRequest onResponse respond =
     \<lparr>policySendRequest = wrappingPolicy onRequest onResponse,
      fetch = recordingTransport respond\<rparr>"

subsection \<open>Notions the properties are stated with\<close>

text \<open>The creators of the policies of a chain, from the outermost to the innermost.\<close>

fun policies :: "RequestPolicy \<Rightarrow> RequestPolicyCreator list" where
  "policies fetchRequestPolicy = []"
| "policies (Policy creator nextPolicy) = creator # policies nextPolicy"

text \<open>The entries of the array the caller passed in \<open>options.requestPolicyCreators\<close>.\<close>

definition callerCreators :: "ServiceClientOptions option \<Rightarrow> heap \<Rightarrow> RequestPolicyCreator list" where
  "callerCreators options h =
     (case options of
        None \<Rightarrow> []
      | Some given \<Rightarrow>
          (case requestPolicyCreators given of None \<Rightarrow> [] | Some a \<Rightarrow> creatorArrays h a))"

text \<open>The accumulated tokens of a client, and a sequence of calls of \<open>addUserAgentInfo\<close>.\<close>

definition userAgentTokens :: "'a ServiceClient_userAgentInfo_scheme \<Rightarrow> heap \<Rightarrow> string list" where
  "userAgentTokens this h = stringArrays h (userAgentInfo this)"

definition addUserAgentInfos ::
  "'a ServiceClient_userAgentInfo_scheme \<Rightarrow> string list \<Rightarrow> heap \<Rightarrow> heap" where
  "addUserAgentInfos this tokens h = fold (addUserAgentInfo this) tokens h"

subsection \<open>Example values\<close>

text \<open>
  A store in which a caller has made one array of creators, at address 0, holding one creator
  of their own; credentials that can sign; and options that pass this array and switch the
  retries off.
\<close>

definition exampleHeap :: heap where
  "exampleHeap =
     \<lparr>nextAddr = 1, stringArrays = (\<lambda>a. []), creatorArrays = (\<lambda>a. [])(0 := [customFilter 7])\<rparr>"

definition exampleCredentials :: ServiceClientCredentials where
  "exampleCredentials = \<lparr>signRequest = Some 1\<rparr>"

definition exampleOptions :: ServiceClientOptions where
  "exampleOptions =
     \<lparr>requestOptions = None, requestPolicyCreators = Some 0, noRetryPolicy = Some True,
      rpRegistrationRetryTimeout = Some 30\<rparr>"

text \<open>
  The client that \<open>new ServiceClient()\<close> gives in this store and the store after this
  construction, and the client that the credentials and options above give.
\<close>

definition defaultClient :: ServiceClient where
  "defaultClient =
     \<lparr>userAgentInfo = 1,
      httpRequestSender =
        Policy (msRestUserAgentFilter 1) (Policy redirectFilter (Policy (rpRegistrationFilter None)
          (Policy exponentialRetryPolicyFilter (Policy systemErrorRetryPolicyFilter
             fetchRequestPolicy))))\<rparr>"

definition defaultHeap :: heap where
  "defaultHeap = snd (snd (ServiceClient_constructor ''0.1.0'' None None exampleHeap))"

definition exampleClient :: ServiceClient where
  "exampleClient =
     \<lparr>userAgentInfo = 1,
      httpRequestSender =
        Policy (customFilter 7) (Policy (signingFilter exampleCredentials)
          (Policy (msRestUserAgentFilter 1) (Policy redirectFilter
             (Policy (rpRegistrationFilter (Some 30)) fetchRequestPolicy))))\<rparr>"

text \<open>
  A caller who switches the default retries off and passes, in the array at address 0, a
  signing filter and a retry filter of their own: the store, the options, and the client
  that a construction without credentials makes from them.
\<close>

definition callerHeap :: heap where
  "callerHeap =
     \<lparr>nextAddr = 1, stringArrays = (\<lambda>a. []),
      creatorArrays =
        (\<lambda>a. [])(0 := [signingFilter exampleCredentials, exponentialRetryPolicyFilter])\<rparr>"

definition callerOptions :: ServiceClientOptions where
  "callerOptions =
     \<lparr>requestOptions = None, requestPolicyCreators = Some 0, noRetryPolicy = Some True,
      rpRegistrationRetryTimeout = None\<rparr>"

definition callerClient :: ServiceClient where
  "callerClient =
     \<lparr>userAgentInfo = 1,
      httpRequestSender =
        Policy (signingFilter exampleCredentials) (Policy exponentialRetryPolicyFilter
          (Policy (msRestUserAgentFilter 1) (Policy redirectFilter
             (Policy (rpRegistrationFilter None) fetchRequestPolicy))))\<rparr>"

text \<open>
  Policies that pass requests and outcomes on unchanged, a transport that answers every
  request with the response 200, and methods of \<open>WebResource\<close> that accept everything.
\<close>

definition exampleBehaviour :: "(string, nat, string event list) policyBehaviour" where
  "exampleBehaviour = observed (\<lambda>creator request. request) (\<lambda>creator outcome. outcome) (\<lambda>request. Inr 200)"

definition exampleWebResource :: "(string, string) WebResourceMethods" where
  "exampleWebResource = \<lparr>validateRequestProperties = (\<lambda>request. None), prepare = Inr\<rparr>"

section \<open>Properties\<close>

subsection \<open>Arrays and the store\<close>

lemma indexOf_ge: "- 1 \<le> indexOf xs x"
  by (induction xs) (auto simp: Let_def)

lemma indexOf_absent: "indexOf xs x = - 1 \<longleftrightarrow> x \<notin> set xs"
proof (induction xs)
  case Nil
  show ?case by simp
next
  case (Cons y ys)
  have "- 1 \<le> indexOf ys x" by (rule indexOf_ge)
  with Cons show ?case by (auto simp: Let_def)
qed

lemma count_list_pos: "0 < count_list xs x \<longleftrightarrow> x \<in> set xs"
  by (induction xs) auto

lemma count_list_distinct: "distinct xs \<Longrightarrow> x \<in> set xs \<Longrightarrow> count_list xs x = 1"
  by (induction xs) auto

lemma creatorArrays_push:
  "creatorArrays (push a x h) b = (if b = a then creatorArrays h a @ [x] else creatorArrays h b)"
  by (simp add: push_def)

lemma stringArrays_push: "stringArrays (push a x h) = stringArrays h"
  by (simp add: push_def)

subsection \<open>The accumulated user-agent tokens\<close>

lemma userAgentTokens_addUserAgentInfo:
  "userAgentTokens this (addUserAgentInfo this t h) =
     (if t \<in> set (userAgentTokens this h) then userAgentTokens this h
      else userAgentTokens this h @ [t])"
  by (simp add: userAgentTokens_def addUserAgentInfo_def indexOf_absent pushString_def)

lemma addUserAgentInfo_present:
  "t \<in> set (userAgentTokens this h) \<Longrightarrow> addUserAgentInfo this t h = h"
  by (simp add: userAgentTokens_def addUserAgentInfo_def indexOf_absent)

lemma distinct_addUserAgentInfo:
  "distinct (userAgentTokens this h) \<Longrightarrow>
     distinct (userAgentTokens this (addUserAgentInfo this t h))"
  by (simp add: userAgentTokens_addUserAgentInfo)

lemma prefix_addUserAgentInfos:
  "prefix (userAgentTokens this h) (userAgentTokens this (addUserAgentInfos this ts h))"
proof (induction ts arbitrary: h)
  case Nil
  show ?case by (simp add: addUserAgentInfos_def)
next
  case (Cons t ts)
  have "prefix (userAgentTokens this h) (userAgentTokens this (addUserAgentInfo this t h))"
    by (simp add: userAgentTokens_addUserAgentInfo)
  also have "prefix \<dots>
      (userAgentTokens this (addUserAgentInfos this ts (addUserAgentInfo this t h)))"
    by (rule Cons.IH)
  finally show ?case by (simp add: addUserAgentInfos_def)
qed

lemma distinct_addUserAgentInfos:
  "distinct (userAgentTokens this h) \<Longrightarrow>
     distinct (userAgentTokens this (addUserAgentInfos this ts h))"
proof (induction ts arbitrary: h)
  case Nil
  then show ?case by (simp add: addUserAgentInfos_def)
next
  case (Cons t ts)
  from Cons.prems have "distinct (userAgentTokens this (addUserAgentInfo this t h))"
    by (rule distinct_addUserAgentInfo)
  then have "distinct (userAgentTokens this (addUserAgentInfos this ts (addUserAgentInfo this t h)))"
    by (rule Cons.IH)
  then show ?case by (simp add: addUserAgentInfos_def)
qed

text \<open>
  C6. Adding a token a second time changes nothing. After the two calls the token occurs
  once if it did not occur before, and as often as before otherwise; so it occurs exactly
  once in a collection without duplicates, which the collection of a client is from its
  construction on (\<open>constructor_result\<close>, \<open>distinct_addUserAgentInfos\<close>). After adding two
  different tokens both are in the collection, and when both are new they stand at its end
  in the order of the calls.
\<close>

theorem addUserAgentInfo_twice:
  "addUserAgentInfo this t (addUserAgentInfo this t h) = addUserAgentInfo this t h \<and>
   count_list (userAgentTokens this (addUserAgentInfo this t (addUserAgentInfo this t h))) t =
     max 1 (count_list (userAgentTokens this h) t) \<and>
   (distinct (userAgentTokens this h) \<longrightarrow>
      count_list (userAgentTokens this (addUserAgentInfo this t (addUserAgentInfo this t h))) t = 1) \<and>
   (t1 \<noteq> t2 \<longrightarrow>
      t1 \<in> set (userAgentTokens this (addUserAgentInfo this t2 (addUserAgentInfo this t1 h))) \<and>
      t2 \<in> set (userAgentTokens this (addUserAgentInfo this t2 (addUserAgentInfo this t1 h)))) \<and>
   (t1 \<noteq> t2 \<and> t1 \<notin> set (userAgentTokens this h) \<and> t2 \<notin> set (userAgentTokens this h) \<longrightarrow>
      userAgentTokens this (addUserAgentInfo this t2 (addUserAgentInfo this t1 h)) =
        userAgentTokens this h @ [t1, t2])"
proof -
  have present: "t \<in> set (userAgentTokens this (addUserAgentInfo this t h))"
    by (simp add: userAgentTokens_addUserAgentInfo)
  then have idem: "addUserAgentInfo this t (addUserAgentInfo this t h) = addUserAgentInfo this t h"
    by (rule addUserAgentInfo_present)
  have once: "count_list (userAgentTokens this (addUserAgentInfo this t h)) t = 1"
    if "distinct (userAgentTokens this h)"
  proof -
    from that have "distinct (userAgentTokens this (addUserAgentInfo this t h))"
      by (rule distinct_addUserAgentInfo)
    with present show ?thesis by (simp add: count_list_distinct)
  qed
  have twice: "count_list (userAgentTokens this (addUserAgentInfo this t h)) t =
      max 1 (count_list (userAgentTokens this h) t)"
    by (simp add: userAgentTokens_addUserAgentInfo max_def Suc_le_eq count_list_pos)
  have counted:
    "count_list (userAgentTokens this (addUserAgentInfo this t (addUserAgentInfo this t h))) t =
       max 1 (count_list (userAgentTokens this h) t)"
    unfolding idem by (rule twice)
  have exactly_once: "distinct (userAgentTokens this h) \<longrightarrow>
      count_list (userAgentTokens this (addUserAgentInfo this t (addUserAgentInfo this t h))) t = 1"
    unfolding idem using once by blast
  have both: "t1 \<noteq> t2 \<longrightarrow>
      t1 \<in> set (userAgentTokens this (addUserAgentInfo this t2 (addUserAgentInfo this t1 h))) \<and>
      t2 \<in> set (userAgentTokens this (addUserAgentInfo this t2 (addUserAgentInfo this t1 h)))"
    by (simp add: userAgentTokens_addUserAgentInfo)
  have in_order:
    "t1 \<noteq> t2 \<and> t1 \<notin> set (userAgentTokens this h) \<and> t2 \<notin> set (userAgentTokens this h) \<longrightarrow>
      userAgentTokens this (addUserAgentInfo this t2 (addUserAgentInfo this t1 h)) =
        userAgentTokens this h @ [t1, t2]"
    by (simp add: userAgentTokens_addUserAgentInfo)
  from idem counted exactly_once both in_order show ?thesis
    by (intro conjI)
qed

theorem addUserAgentInfo_twice_witness:
  "userAgentTokens defaultClient defaultHeap = [''ms-rest-js/0.1.0''] \<and>
   distinct (userAgentTokens defaultClient defaultHeap) \<and>
   count_list (userAgentTokens defaultClient
     (addUserAgentInfo defaultClient ''a'' (addUserAgentInfo defaultClient ''a'' defaultHeap)))
     ''a'' = 1 \<and>
   ''a'' \<noteq> ''b'' \<and>
   userAgentTokens defaultClient
     (addUserAgentInfo defaultClient ''b'' (addUserAgentInfo defaultClient ''a'' defaultHeap)) =
     [''ms-rest-js/0.1.0'', ''a'', ''b'']"
proof -
  have seeded: "userAgentTokens defaultClient defaultHeap = [''ms-rest-js/0.1.0'']"
    by (simp add: userAgentTokens_def defaultHeap_def defaultClient_def
        ServiceClient_constructor_def Let_def newStringArray_def newCreatorArray_def push_def
        pushString_def addUserAgentInfo_def emptyOptions_def exampleHeap_def)
  note twice = addUserAgentInfo_twice [of defaultClient "''a''" defaultHeap "''a''" "''b''"]
  from seeded have unique: "distinct (userAgentTokens defaultClient defaultHeap)"
    by simp
  from twice unique
  have once: "count_list (userAgentTokens defaultClient
     (addUserAgentInfo defaultClient ''a'' (addUserAgentInfo defaultClient ''a'' defaultHeap)))
     ''a'' = 1"
    by blast
  have different: "''a'' \<noteq> ''b''"
    by simp
  from twice seeded
  have ordered: "userAgentTokens defaultClient
     (addUserAgentInfo defaultClient ''b'' (addUserAgentInfo defaultClient ''a'' defaultHeap)) =
     [''ms-rest-js/0.1.0'', ''a'', ''b'']"
    by simp
  from seeded unique once different ordered show ?thesis
    by (intro conjI)
qed

text \<open>
  C7. The collection only grows at its end: one call leaves it as it is or appends the token,
  and after any sequence of calls the collection before them is a prefix of the collection
  after them, so every entry is still there, at the position it had.
\<close>

theorem userAgentTokens_append_only:
  "(userAgentTokens this (addUserAgentInfo this t h) = userAgentTokens this h \<or>
    userAgentTokens this (addUserAgentInfo this t h) = userAgentTokens this h @ [t]) \<and>
   prefix (userAgentTokens this h) (userAgentTokens this (addUserAgentInfos this ts h))"
  by (simp add: userAgentTokens_addUserAgentInfo prefix_addUserAgentInfos)

subsection \<open>The chain builder\<close>

lemma policies_createRequestPipeline: "policies (createRequestPipeline creators) = creators"
  by (induction creators) simp_all

lemma run_observed:
  "RequestPolicy_sendRequest (observed onRequest onResponse respond)
     (createRequestPipeline creators) request log =
   (foldr onResponse creators (respond (fold onRequest creators request)),
    log @ map RequestSeen creators @ [Sent (fold onRequest creators request)] @
      map ResponseSeen (rev creators))"
  by (induction creators arbitrary: request log)
    (simp_all add: observed_def wrappingPolicy_def recordingTransport_def)

text \<open>
  C1. Take any sequence of creators, let the policy of each change the request, call its
  inward delegate once and change the outcome, and send a request through the chain that
  \<open>createRequestPipeline\<close> builds. The policies see the request in the order of the sequence,
  each receiving the request as the policies before it left it; then the transport is
  called, once, with the request the last policy left; then the policies see the outcome in
  the reverse order, the first of the sequence last.
\<close>

theorem createRequestPipeline_order:
  "RequestPolicy_sendRequest (observed onRequest onResponse respond)
     (createRequestPipeline creators) request log =
   (foldr onResponse creators (respond (fold onRequest creators request)),
    log @ map RequestSeen creators @ [Sent (fold onRequest creators request)] @
      map ResponseSeen (rev creators))"
proof (induction creators arbitrary: request log)
  case Nil
  show ?case by (simp add: observed_def recordingTransport_def)
next
  case (Cons creator remainder)
  have "RequestPolicy_sendRequest (observed onRequest onResponse respond)
          (createRequestPipeline (creator # remainder)) request log =
        wrappingPolicy onRequest onResponse creator
          (RequestPolicy_sendRequest (observed onRequest onResponse respond)
             (createRequestPipeline remainder)) request log"
    by (simp add: observed_def)
  then show ?case
    by (simp add: wrappingPolicy_def Cons.IH)
qed

subsection \<open>sendRequest\<close>

text \<open>
  C4. Called with anything that is not an object (\<open>null\<close>, \<open>undefined\<close>, a number, a string,
  a boolean, a function), \<open>sendRequest\<close> is rejected with the error of the first check.
  This holds whatever the policies and the transport do and leaves the world as it was: the
  chain is not called.
\<close>

theorem sendRequest_rejects_non_object:
  assumes "\<forall>obj. options \<noteq> JSObject obj"
  shows "sendRequest webResource env this options w =
     (Inl (Error ''options cannot be null or undefined and it must be of type object.''), w)"
  using assms by (cases options) (simp_all add: sendRequest_def)

theorem sendRequest_rejects_non_object_witness:
  "sendRequest exampleWebResource exampleBehaviour exampleClient (JSNumber 42) [] =
     (Inl (Error ''options cannot be null or undefined and it must be of type object.''), []) \<and>
   sendRequest exampleWebResource exampleBehaviour exampleClient JSNull [] =
     (Inl (Error ''options cannot be null or undefined and it must be of type object.''), [])"
  using sendRequest_rejects_non_object
      [of "JSNumber 42" exampleWebResource exampleBehaviour exampleClient "[]"]
    sendRequest_rejects_non_object
      [of JSNull exampleWebResource exampleBehaviour exampleClient "[]"]
  by simp

subsection \<open>The constructor\<close>

lemma triple_of_fst: "fst p = x \<Longrightarrow> p = (x, fst (snd p), snd (snd p))"
  by (cases p) auto

text \<open>
  What a construction that returns a client has done: the array of creators of the options
  holds what the caller had put there, then the creators the constructor pushed; no other
  array of creators has changed; the chain is built from that array; the tokens are the one
  the constructor added.
\<close>

lemma constructor_result:
  assumes "ServiceClient_constructor v credentials options h = (Inr client, options', h')"
  shows "\<exists>a. requestPolicyCreators options' = Some a \<and>
           (\<forall>given b. options = Some given \<longrightarrow> requestPolicyCreators given = Some b \<longrightarrow> a = b) \<and>
           creatorArrays h' a =
             callerCreators options h @
             (case credentials of None \<Rightarrow> [] | Some c \<Rightarrow> [signingFilter c]) @
             [msRestUserAgentFilter (userAgentInfo client), redirectFilter,
              rpRegistrationFilter
                (case options of None \<Rightarrow> None | Some given \<Rightarrow> rpRegistrationRetryTimeout given)] @
             (if (case options of None \<Rightarrow> None | Some given \<Rightarrow> noRetryPolicy given) = Some True
              then []
              else [exponentialRetryPolicyFilter, systemErrorRetryPolicyFilter]) \<and>
           (\<forall>b. b \<noteq> a \<longrightarrow> creatorArrays h' b = creatorArrays h b) \<and>
           httpRequestSender client = createRequestPipeline (creatorArrays h' a) \<and>
           userAgentTokens client h' = [''ms-rest-js'' @ ''/'' @ v]"
  using assms
  by (auto simp: ServiceClient_constructor_def Let_def newStringArray_def newCreatorArray_def
      creatorArrays_push stringArrays_push pushString_def addUserAgentInfo_def callerCreators_def
      emptyOptions_def userAgentTokens_def
      split: option.splits if_splits prod.splits)

lemma constructor_policies:
  assumes "ServiceClient_constructor v credentials options h = (Inr client, options', h')"
  shows "policies (httpRequestSender client) =
           callerCreators options h @
           (case credentials of None \<Rightarrow> [] | Some c \<Rightarrow> [signingFilter c]) @
           [msRestUserAgentFilter (userAgentInfo client), redirectFilter,
            rpRegistrationFilter
              (case options of None \<Rightarrow> None | Some given \<Rightarrow> rpRegistrationRetryTimeout given)] @
           (if (case options of None \<Rightarrow> None | Some given \<Rightarrow> noRetryPolicy given) = Some True
            then []
            else [exponentialRetryPolicyFilter, systemErrorRetryPolicyFilter])"
proof -
  from constructor_result [OF assms] obtain a where
    "httpRequestSender client = createRequestPipeline (creatorArrays h' a)" and
    "creatorArrays h' a =
       callerCreators options h @
       (case credentials of None \<Rightarrow> [] | Some c \<Rightarrow> [signingFilter c]) @
       [msRestUserAgentFilter (userAgentInfo client), redirectFilter,
        rpRegistrationFilter
          (case options of None \<Rightarrow> None | Some given \<Rightarrow> rpRegistrationRetryTimeout given)] @
       (if (case options of None \<Rightarrow> None | Some given \<Rightarrow> noRetryPolicy given) = Some True
        then []
        else [exponentialRetryPolicyFilter, systemErrorRetryPolicyFilter])"
    by blast
  then show ?thesis
    by (simp only: policies_createRequestPipeline)
qed

text \<open>The two example constructions.\<close>

lemma default_construction:
  "fst (ServiceClient_constructor ''0.1.0'' None None exampleHeap) = Inr defaultClient"
  by (simp add: ServiceClient_constructor_def Let_def newStringArray_def newCreatorArray_def
      push_def pushString_def addUserAgentInfo_def emptyOptions_def exampleHeap_def
      defaultClient_def)

lemma example_construction:
  "fst (ServiceClient_constructor ''0.1.0'' (Some exampleCredentials) (Some exampleOptions)
          exampleHeap) = Inr exampleClient"
  by (simp add: ServiceClient_constructor_def Let_def newStringArray_def newCreatorArray_def
      push_def pushString_def addUserAgentInfo_def exampleOptions_def exampleHeap_def
      exampleCredentials_def exampleClient_def)

text \<open>
  C10. Given credentials without a \<open>signRequest\<close> member the constructor throws, with the
  message of its check. It returns no client, so no chain, and has pushed no creator onto
  any array.
\<close>

theorem constructor_rejects_credentials_without_signRequest:
  assumes "credentials = Some c" and "signRequest c = None"
  shows "fst (ServiceClient_constructor v credentials options h) =
           Inl (Error ''credentials argument needs to implement signRequest method'') \<and>
         creatorArrays (snd (snd (ServiceClient_constructor v credentials options h))) =
           creatorArrays h"
  using assms
  by (simp add: ServiceClient_constructor_def Let_def newStringArray_def split: prod.splits)

theorem constructor_rejects_credentials_without_signRequest_witness:
  "signRequest \<lparr>signRequest = None\<rparr> = None \<and>
   fst (ServiceClient_constructor ''0.1.0'' (Some \<lparr>signRequest = None\<rparr>) (Some exampleOptions)
          exampleHeap) =
     Inl (Error ''credentials argument needs to implement signRequest method'') \<and>
   creatorArrays (snd (snd (ServiceClient_constructor ''0.1.0'' (Some \<lparr>signRequest = None\<rparr>)
          (Some exampleOptions) exampleHeap))) 0 = [customFilter 7]"
  using constructor_rejects_credentials_without_signRequest
      [of "Some \<lparr>signRequest = None\<rparr>" "\<lparr>signRequest = None\<rparr>" "''0.1.0''" "Some exampleOptions"
        exampleHeap]
  by (simp add: exampleHeap_def)

text \<open>
  C9. After a construction that returns a client, the tokens of the client are exactly the
  one token \<open>ms-rest-js/<version>\<close>, and it stays the first token whatever tokens are
  added afterwards.
\<close>

theorem constructor_seeds_userAgentInfo:
  assumes "ServiceClient_constructor msRestVersion credentials options h = (Inr client, options', h')"
  shows "userAgentTokens client h' = [''ms-rest-js'' @ ''/'' @ msRestVersion] \<and>
         (\<exists>later. userAgentTokens client (addUserAgentInfos client tokens h') =
            (''ms-rest-js'' @ ''/'' @ msRestVersion) # later)"
proof -
  from constructor_result [OF assms]
  have seeded: "userAgentTokens client h' = [''ms-rest-js'' @ ''/'' @ msRestVersion]"
    by blast
  have "prefix (userAgentTokens client h')
          (userAgentTokens client (addUserAgentInfos client tokens h'))"
    by (rule prefix_addUserAgentInfos)
  then obtain later where
    "userAgentTokens client (addUserAgentInfos client tokens h') =
       userAgentTokens client h' @ later"
    by (auto simp: prefix_def)
  with seeded show ?thesis by simp
qed

theorem constructor_seeds_userAgentInfo_witness:
  "fst (ServiceClient_constructor ''0.1.0'' None None exampleHeap) = Inr defaultClient \<and>
   userAgentTokens defaultClient
     (snd (snd (ServiceClient_constructor ''0.1.0'' None None exampleHeap))) =
     [''ms-rest-js/0.1.0'']"
  using constructor_seeds_userAgentInfo [OF triple_of_fst [OF default_construction]]
    default_construction
  by simp

text \<open>
  C2. The chain of a constructed client consists of the caller's creators followed by those
  the constructor added, and among the added ones there is a signing filter exactly when
  credentials were passed. So, when the array passed in the options holds no signing filter
  (or no array is passed), the chain holds a signing policy exactly when credentials were
  passed.
\<close>

theorem signing_policy_iff_credentials:
  assumes "ServiceClient_constructor v credentials options h = (Inr client, options', h')"
  shows "\<exists>added. policies (httpRequestSender client) = callerCreators options h @ added \<and>
           ((\<exists>c. signingFilter c \<in> set added) \<longleftrightarrow> credentials \<noteq> None) \<and>
           ((\<forall>c. signingFilter c \<notin> set (callerCreators options h)) \<longrightarrow>
              ((\<exists>c. signingFilter c \<in> set (policies (httpRequestSender client))) \<longleftrightarrow>
                 credentials \<noteq> None))"
proof -
  let ?added = "(case credentials of None \<Rightarrow> [] | Some c \<Rightarrow> [signingFilter c]) @
             [msRestUserAgentFilter (userAgentInfo client), redirectFilter,
              rpRegistrationFilter
                (case options of None \<Rightarrow> None | Some given \<Rightarrow> rpRegistrationRetryTimeout given)] @
             (if (case options of None \<Rightarrow> None | Some given \<Rightarrow> noRetryPolicy given) = Some True
              then []
              else [exponentialRetryPolicyFilter, systemErrorRetryPolicyFilter])"
  have whole: "policies (httpRequestSender client) = callerCreators options h @ ?added"
    by (rule constructor_policies [OF assms])
  have among: "(\<exists>c. signingFilter c \<in> set ?added) \<longleftrightarrow> credentials \<noteq> None"
    by (cases credentials) simp_all
  show ?thesis
  proof (intro exI conjI impI)
    show "policies (httpRequestSender client) = callerCreators options h @ ?added"
      by (rule whole)
    show "(\<exists>c. signingFilter c \<in> set ?added) \<longleftrightarrow> credentials \<noteq> None"
      by (rule among)
    assume "\<forall>c. signingFilter c \<notin> set (callerCreators options h)"
    then have "(\<exists>c. signingFilter c \<in> set (policies (httpRequestSender client))) \<longleftrightarrow>
               (\<exists>c. signingFilter c \<in> set ?added)"
      unfolding whole set_append by blast
    with among show "(\<exists>c. signingFilter c \<in> set (policies (httpRequestSender client))) \<longleftrightarrow>
                 credentials \<noteq> None"
      by simp
  qed
qed

theorem signing_policy_iff_credentials_witness:
  "fst (ServiceClient_constructor ''0.1.0'' (Some exampleCredentials) (Some exampleOptions)
          exampleHeap) = Inr exampleClient \<and>
   (\<exists>c. signingFilter c \<in> set (policies (httpRequestSender exampleClient))) \<and>
   fst (ServiceClient_constructor ''0.1.0'' None None exampleHeap) = Inr defaultClient \<and>
   \<not> (\<exists>c. signingFilter c \<in> set (policies (httpRequestSender defaultClient)))"
  using signing_policy_iff_credentials [OF triple_of_fst [OF example_construction]]
    signing_policy_iff_credentials [OF triple_of_fst [OF default_construction]]
    example_construction default_construction
  by (auto simp: callerCreators_def exampleOptions_def exampleHeap_def)

text \<open>
  C2, as a statement about every construction, fails: the chain also holds the policies of
  the creators the caller passed, so a construction without credentials whose options pass
  an array with a signing filter gives a chain with a signing policy.
\<close>

theorem signing_policy_without_credentials:
  "fst (ServiceClient_constructor ''0.1.0'' None (Some callerOptions) callerHeap) =
     Inr callerClient \<and>
   signingFilter exampleCredentials \<in> set (policies (httpRequestSender callerClient))"
  by (simp add: ServiceClient_constructor_def Let_def newStringArray_def newCreatorArray_def
      push_def pushString_def addUserAgentInfo_def callerOptions_def callerHeap_def
      callerClient_def)

text \<open>
  C3. Among the creators the constructor adds, the exponential retry filter and the system
  error retry filter are both missing when \<open>options.noRetryPolicy\<close> is true, and both there
  when it is false or not given (or no options are given). So, when the array passed in the
  options holds no retry filter (or no array is passed), the chain holds each of the two
  retry policies exactly when \<open>noRetryPolicy\<close> is not true.
\<close>

theorem noRetryPolicy_omits_retry_policies:
  assumes "ServiceClient_constructor v credentials options h = (Inr client, options', h')"
  shows "\<exists>added. policies (httpRequestSender client) = callerCreators options h @ added \<and>
           (exponentialRetryPolicyFilter \<in> set added \<longleftrightarrow>
              \<not> (\<exists>given. options = Some given \<and> noRetryPolicy given = Some True)) \<and>
           (systemErrorRetryPolicyFilter \<in> set added \<longleftrightarrow>
              \<not> (\<exists>given. options = Some given \<and> noRetryPolicy given = Some True)) \<and>
           (exponentialRetryPolicyFilter \<notin> set (callerCreators options h) \<and>
            systemErrorRetryPolicyFilter \<notin> set (callerCreators options h) \<longrightarrow>
              (exponentialRetryPolicyFilter \<in> set (policies (httpRequestSender client)) \<longleftrightarrow>
                 \<not> (\<exists>given. options = Some given \<and> noRetryPolicy given = Some True)) \<and>
              (systemErrorRetryPolicyFilter \<in> set (policies (httpRequestSender client)) \<longleftrightarrow>
                 \<not> (\<exists>given. options = Some given \<and> noRetryPolicy given = Some True)))"
proof -
  let ?off = "\<exists>given. options = Some given \<and> noRetryPolicy given = Some True"
  let ?added = "(case credentials of None \<Rightarrow> [] | Some c \<Rightarrow> [signingFilter c]) @
             [msRestUserAgentFilter (userAgentInfo client), redirectFilter,
              rpRegistrationFilter
                (case options of None \<Rightarrow> None | Some given \<Rightarrow> rpRegistrationRetryTimeout given)] @
             (if (case options of None \<Rightarrow> None | Some given \<Rightarrow> noRetryPolicy given) = Some True
              then []
              else [exponentialRetryPolicyFilter, systemErrorRetryPolicyFilter])"
  have whole: "policies (httpRequestSender client) = callerCreators options h @ ?added"
    by (rule constructor_policies [OF assms])
  have off: "(case options of None \<Rightarrow> None | Some given \<Rightarrow> noRetryPolicy given) = Some True \<longleftrightarrow> ?off"
    by (cases options) simp_all
  have exponential: "exponentialRetryPolicyFilter \<in> set ?added \<longleftrightarrow> \<not> ?off"
    unfolding off by (cases credentials) simp_all
  have system: "systemErrorRetryPolicyFilter \<in> set ?added \<longleftrightarrow> \<not> ?off"
    unfolding off by (cases credentials) simp_all
  show ?thesis
  proof (intro exI conjI impI)
    show "policies (httpRequestSender client) = callerCreators options h @ ?added"
      by (rule whole)
    show "exponentialRetryPolicyFilter \<in> set ?added \<longleftrightarrow> \<not> ?off"
      by (rule exponential)
    show "systemErrorRetryPolicyFilter \<in> set ?added \<longleftrightarrow> \<not> ?off"
      by (rule system)
    assume caller: "exponentialRetryPolicyFilter \<notin> set (callerCreators options h) \<and>
            systemErrorRetryPolicyFilter \<notin> set (callerCreators options h)"
    have "exponentialRetryPolicyFilter \<in> set (policies (httpRequestSender client)) \<longleftrightarrow>
          exponentialRetryPolicyFilter \<in> set ?added"
      unfolding whole set_append using caller by blast
    with exponential
    show "exponentialRetryPolicyFilter \<in> set (policies (httpRequestSender client)) \<longleftrightarrow> \<not> ?off"
      by simp
    have "systemErrorRetryPolicyFilter \<in> set (policies (httpRequestSender client)) \<longleftrightarrow>
          systemErrorRetryPolicyFilter \<in> set ?added"
      unfolding whole set_append using caller by blast
    with system
    show "systemErrorRetryPolicyFilter \<in> set (policies (httpRequestSender client)) \<longleftrightarrow> \<not> ?off"
      by simp
  qed
qed

theorem noRetryPolicy_omits_retry_policies_witness:
  "fst (ServiceClient_constructor ''0.1.0'' (Some exampleCredentials) (Some exampleOptions)
          exampleHeap) = Inr exampleClient \<and>
   noRetryPolicy exampleOptions = Some True \<and>
   exponentialRetryPolicyFilter \<notin> set (policies (httpRequestSender exampleClient)) \<and>
   systemErrorRetryPolicyFilter \<notin> set (policies (httpRequestSender exampleClient)) \<and>
   fst (ServiceClient_constructor ''0.1.0'' None None exampleHeap) = Inr defaultClient \<and>
   exponentialRetryPolicyFilter \<in> set (policies (httpRequestSender defaultClient)) \<and>
   systemErrorRetryPolicyFilter \<in> set (policies (httpRequestSender defaultClient))"
  using noRetryPolicy_omits_retry_policies [OF triple_of_fst [OF example_construction]]
    noRetryPolicy_omits_retry_policies [OF triple_of_fst [OF default_construction]]
    example_construction default_construction
  by (auto simp: callerCreators_def exampleOptions_def exampleHeap_def)

text \<open>
  C3, as a statement about every construction with \<open>noRetryPolicy\<close> true, fails in the same
  way: a caller who switches the default retries off and passes a retry filter of their own
  gets a chain with that retry policy.
\<close>

theorem retry_policy_despite_noRetryPolicy:
  "noRetryPolicy callerOptions = Some True \<and>
   fst (ServiceClient_constructor ''0.1.0'' None (Some callerOptions) callerHeap) =
     Inr callerClient \<and>
   exponentialRetryPolicyFilter \<in> set (policies (httpRequestSender callerClient))"
  by (simp add: ServiceClient_constructor_def Let_def newStringArray_def newCreatorArray_def
      push_def pushString_def addUserAgentInfo_def callerOptions_def callerHeap_def
      callerClient_def)

text \<open>
  C5. When \<open>noRetryPolicy\<close> is not true, the chain ends with the exponential retry policy and,
  inward of it and next to the transport, the system error retry policy. On the way in the
  exponential retry policy sees the request just before the system error retry policy does;
  on the way out it receives the outcome that the system error retry policy returns.
\<close>

theorem systemErrorRetry_inward_of_exponentialRetry:
  assumes "ServiceClient_constructor v credentials options h = (Inr client, options', h')"
    and "\<not> (\<exists>given. options = Some given \<and> noRetryPolicy given = Some True)"
  shows "\<exists>outer.
           policies (httpRequestSender client) =
             outer @ [exponentialRetryPolicyFilter, systemErrorRetryPolicyFilter] \<and>
           pipeline (observed onRequest onResponse respond) client request log =
             (foldr onResponse outer
                (onResponse exponentialRetryPolicyFilter
                   (onResponse systemErrorRetryPolicyFilter
                      (respond (onRequest systemErrorRetryPolicyFilter
                         (onRequest exponentialRetryPolicyFilter (fold onRequest outer request)))))),
              log @ map RequestSeen outer @
                [RequestSeen exponentialRetryPolicyFilter,
                 RequestSeen systemErrorRetryPolicyFilter,
                 Sent (onRequest systemErrorRetryPolicyFilter
                         (onRequest exponentialRetryPolicyFilter (fold onRequest outer request))),
                 ResponseSeen systemErrorRetryPolicyFilter,
                 ResponseSeen exponentialRetryPolicyFilter] @
                map ResponseSeen (rev outer))"
proof -
  let ?outer = "callerCreators options h @
             (case credentials of None \<Rightarrow> [] | Some c \<Rightarrow> [signingFilter c]) @
             [msRestUserAgentFilter (userAgentInfo client), redirectFilter,
              rpRegistrationFilter
                (case options of None \<Rightarrow> None | Some given \<Rightarrow> rpRegistrationRetryTimeout given)]"
  let ?all = "?outer @ [exponentialRetryPolicyFilter, systemErrorRetryPolicyFilter]"
  from assms(2)
  have on: "(case options of None \<Rightarrow> None | Some given \<Rightarrow> noRetryPolicy given) \<noteq> Some True"
    by (cases options) simp_all
  have whole: "policies (httpRequestSender client) = ?all"
    using constructor_policies [OF assms(1)] on by simp
  have "createRequestPipeline (policies (httpRequestSender client)) = httpRequestSender client"
    using constructor_result [OF assms(1)] by (auto simp: policies_createRequestPipeline)
  then have chain: "httpRequestSender client = createRequestPipeline ?all"
    by (simp only: whole)
  have "pipeline (observed onRequest onResponse respond) client request log =
          (foldr onResponse ?all (respond (fold onRequest ?all request)),
           log @ map RequestSeen ?all @ [Sent (fold onRequest ?all request)] @
             map ResponseSeen (rev ?all))"
    unfolding pipeline_def chain by (rule run_observed)
  then have run: "pipeline (observed onRequest onResponse respond) client request log =
             (foldr onResponse ?outer
                (onResponse exponentialRetryPolicyFilter
                   (onResponse systemErrorRetryPolicyFilter
                      (respond (onRequest systemErrorRetryPolicyFilter
                         (onRequest exponentialRetryPolicyFilter (fold onRequest ?outer request)))))),
              log @ map RequestSeen ?outer @
                [RequestSeen exponentialRetryPolicyFilter,
                 RequestSeen systemErrorRetryPolicyFilter,
                 Sent (onRequest systemErrorRetryPolicyFilter
                         (onRequest exponentialRetryPolicyFilter (fold onRequest ?outer request))),
                 ResponseSeen systemErrorRetryPolicyFilter,
                 ResponseSeen exponentialRetryPolicyFilter] @
                map ResponseSeen (rev ?outer))"
    by simp
  from whole run show ?thesis by blast
qed

theorem systemErrorRetry_inward_of_exponentialRetry_witness:
  "fst (ServiceClient_constructor ''0.1.0'' None None exampleHeap) = Inr defaultClient \<and>
   pipeline exampleBehaviour defaultClient ''GET /'' [] =
     (Inr 200,
      [RequestSeen (msRestUserAgentFilter 1), RequestSeen redirectFilter,
       RequestSeen (rpRegistrationFilter None),
       RequestSeen exponentialRetryPolicyFilter, RequestSeen systemErrorRetryPolicyFilter,
       Sent ''GET /'',
       ResponseSeen systemErrorRetryPolicyFilter, ResponseSeen exponentialRetryPolicyFilter,
       ResponseSeen (rpRegistrationFilter None), ResponseSeen redirectFilter,
       ResponseSeen (msRestUserAgentFilter 1)])"
  using systemErrorRetry_inward_of_exponentialRetry
      [OF triple_of_fst [OF default_construction],
        of "\<lambda>creator request. request" "\<lambda>creator outcome. outcome" "\<lambda>request. Inr 200" "''GET /''" "[]"]
    default_construction
  by (simp add: exampleBehaviour_def defaultClient_def pipeline_def observed_def
      wrappingPolicy_def recordingTransport_def)

text \<open>
  C8. When the caller passes an array in \<open>options.requestPolicyCreators\<close>, the options still
  refer to that array after the construction, and the array holds what it held before
  followed by the creators the constructor pushed: the signing filter if credentials were
  passed, the user-agent filter on the client's tokens, the redirect filter, the provider
  registration filter with the timeout of the options, and the two retry filters unless
  they are switched off. No other array of creators has changed, and the chain has one policy
  for each entry of the array, in the order of the array, so the caller's ones are outermost.
\<close>

theorem default_creators_appended_in_place:
  assumes "ServiceClient_constructor v credentials options h = (Inr client, options', h')"
    and "options = Some given" and "requestPolicyCreators given = Some a"
  shows "requestPolicyCreators options' = Some a \<and>
         creatorArrays h' a =
           creatorArrays h a @
           (case credentials of None \<Rightarrow> [] | Some c \<Rightarrow> [signingFilter c]) @
           [msRestUserAgentFilter (userAgentInfo client), redirectFilter,
            rpRegistrationFilter (rpRegistrationRetryTimeout given)] @
           (if noRetryPolicy given = Some True then []
            else [exponentialRetryPolicyFilter, systemErrorRetryPolicyFilter]) \<and>
         (\<forall>b. b \<noteq> a \<longrightarrow> creatorArrays h' b = creatorArrays h b) \<and>
         policies (httpRequestSender client) = creatorArrays h' a"
  using constructor_result [OF assms(1)] assms(2,3)
  by (auto simp: callerCreators_def policies_createRequestPipeline)

theorem default_creators_appended_in_place_witness:
  "requestPolicyCreators exampleOptions = Some 0 \<and>
   creatorArrays exampleHeap 0 = [customFilter 7] \<and>
   fst (ServiceClient_constructor ''0.1.0'' (Some exampleCredentials) (Some exampleOptions)
          exampleHeap) = Inr exampleClient \<and>
   creatorArrays (snd (snd (ServiceClient_constructor ''0.1.0'' (Some exampleCredentials)
          (Some exampleOptions) exampleHeap))) 0 =
     [customFilter 7, signingFilter exampleCredentials, msRestUserAgentFilter 1, redirectFilter,
      rpRegistrationFilter (Some 30)] \<and>
   policies (httpRequestSender exampleClient) =
     [customFilter 7, signingFilter exampleCredentials, msRestUserAgentFilter 1, redirectFilter,
      rpRegistrationFilter (Some 30)]"
proof -
  have given: "requestPolicyCreators exampleOptions = Some 0"
    by (simp add: exampleOptions_def)
  have before: "creatorArrays exampleHeap 0 = [customFilter 7]"
    by (simp add: exampleHeap_def)
  note appended =
    default_creators_appended_in_place
      [OF triple_of_fst [OF example_construction] refl given, THEN conjunct2, THEN conjunct1]
  have after: "creatorArrays (snd (snd (ServiceClient_constructor ''0.1.0''
        (Some exampleCredentials) (Some exampleOptions) exampleHeap))) 0 =
     [customFilter 7, signingFilter exampleCredentials, msRestUserAgentFilter 1, redirectFilter,
      rpRegistrationFilter (Some 30)]"
    unfolding appended before by (simp add: exampleOptions_def exampleClient_def)
  have chain: "policies (httpRequestSender exampleClient) =
     [customFilter 7, signingFilter exampleCredentials, msRestUserAgentFilter 1, redirectFilter,
      rpRegistrationFilter (Some 30)]"
    by (simp add: exampleClient_def)
  from given before example_construction after chain show ?thesis
    by (intro conjI)
qed

end
